theory Spec2Isabelle
  imports Complex_Main "HOL-Library.Word"
begin

unbundle bit_operations_syntax

section \<open>JavaScript strings\<close>

text \<open>
  A JavaScript string is a sequence of 16-bit UTF-16 code units. Source literals are
  ASCII, so a literal is written as an Isabelle string and lifted with \<open>js\<close>.
\<close>

type_synonym code_unit = "16 word"
type_synonym js_string = "code_unit list"

definition js :: "string \<Rightarrow> js_string" where
  "js s = map of_char s"

text \<open>
  \<open>String.prototype.trim\<close> strips the code units of the ECMAScript productions
  WhiteSpace and LineTerminator from both ends.
\<close>

definition WhiteSpace :: "code_unit \<Rightarrow> bool" where
  "WhiteSpace c \<longleftrightarrow>
     c = 0x0009 \<or> c = 0x000A \<or> c = 0x000B \<or> c = 0x000C \<or> c = 0x000D \<or> c = 0x0020 \<or>
     c = 0x00A0 \<or> c = 0x1680 \<or> (0x2000 \<le> c \<and> c \<le> 0x200A) \<or> c = 0x2028 \<or>
     c = 0x2029 \<or> c = 0x202F \<or> c = 0x205F \<or> c = 0x3000 \<or> c = 0xFEFF"

definition String_trim :: "js_string \<Rightarrow> js_string" where
  "String_trim s = rev (dropWhile WhiteSpace (rev (dropWhile WhiteSpace s)))"

text \<open>\<open>String.prototype.startsWith\<close> and \<open>String.prototype.includes\<close> (position 0).\<close>

fun String_startsWith :: "js_string \<Rightarrow> js_string \<Rightarrow> bool" where
  "String_startsWith s [] = True"
| "String_startsWith [] (d # t) = False"
| "String_startsWith (c # s) (d # t) = (c = d \<and> String_startsWith s t)"

fun String_includes :: "js_string \<Rightarrow> js_string \<Rightarrow> bool" where
  "String_includes [] t = (t = [])"
| "String_includes (c # s) t = (String_startsWith (c # s) t \<or> String_includes s t)"

text \<open>
  A value of type \<open>string | undefined\<close> is a \<open>js_string option\<close>. It is falsy when it
  is undefined or the empty string; \<open>x || d\<close> yields \<open>d\<close> exactly then.
\<close>

definition falsy :: "js_string option \<Rightarrow> bool" where
  "falsy x = (case x of None \<Rightarrow> True | Some s \<Rightarrow> s = [])"

definition or_else :: "js_string option \<Rightarrow> js_string \<Rightarrow> js_string" where
  "or_else x d = (case x of None \<Rightarrow> d | Some s \<Rightarrow> if s = [] then d else s)"

section \<open>types.ts\<close>

datatype RefinementGoal = GENERAL | TECHNICAL | CREATIVE | CONCISE | CODING | STRUCTURED

text \<open>The string value each member of the enum has at run time.\<close>

fun goal_value :: "RefinementGoal \<Rightarrow> js_string" where
  "goal_value GENERAL = js ''General Improvement''"
| "goal_value TECHNICAL = js ''Technical & Scientific''"
| "goal_value CREATIVE = js ''Creative & Descriptive''"
| "goal_value CONCISE = js ''Ultra Concise''"
| "goal_value CODING = js ''Software Development''"
| "goal_value STRUCTURED = js ''Highly Structured/JSON''"

record RefinementHistory =
  entry_id :: js_string
  original :: js_string
  refined :: js_string
  goal :: RefinementGoal
  timestamp :: int

section \<open>services/geminiService.ts\<close>

definition base :: js_string where
  "base = js (''You are a world-class prompt engineer and AI optimization expert.\<newline>'' @
    ''  Your task is to take a raw, simple, or poorly constructed user prompt and transform it into a high-quality instruction for a Large Language Model.\<newline>'' @
    ''  \<newline>'' @
    ''  Follow these principles:\<newline>'' @
    ''  1. Clarity & Precision: Eliminate ambiguity.\<newline>'' @
    ''  2. Contextual Depth: Add relevant context that helps the AI understand the underlying goal.\<newline>'' @
    ''  3. Formatting: Use Markdown structure (headings, lists) where appropriate to increase readability for the AI.\<newline>'' @
    ''  4. Role Play: Often, assigning a specific persona helps (e.g., 'You are a senior data scientist').\<newline>'' @
    ''  5. Negative Constraints: Specify what NOT to do if relevant.\<newline>'' @
    ''  '')"

fun goals :: "RefinementGoal \<Rightarrow> js_string" where
  "goals GENERAL = js ''Provide a well-balanced, professional, and clear version of the user's prompt.''"
| "goals TECHNICAL = js ''Focus on precision, terminology accuracy, and logical sequence. Ensure the prompt asks for evidence-based or mathematically sound responses.''"
| "goals CREATIVE = js ''Enhance descriptive language, encourage stylistic flair, and broaden the imaginative scope. Add sensory details and emotional tone requirements.''"
| "goals CONCISE = js ''Strip away fluff. Make the prompt direct and efficient while retaining the core intent. Use imperative language.''"
| "goals CODING = js ''Focus on architecture, clean code principles, edge cases, and specific programming paradigms. Include requirements for documentation and testing.''"
| "goals STRUCTURED = js ''Ensure the prompt asks for a strictly structured output (like JSON, Table, or CSV). Add schema requirements and type definitions.''"

definition getSystemInstruction :: "RefinementGoal \<Rightarrow> js_string" where
  "getSystemInstruction g =
     base @ js ''\<newline>\<newline>SPECIFIC GOAL: '' @ goals g @
     js ''\<newline>\<newline>Respond ONLY with the refined prompt. Do not provide meta-commentary like 'Here is your prompt'. Just the prompt text itself.''"

text \<open>
  The request object handed to \<open>ai.models.generateContent\<close>. The number literals
  \<open>0.7\<close> and \<open>0.95\<close> are kept as the decimal fractions the source writes.
\<close>

record GenerateContentConfig =
  systemInstruction :: js_string
  temperature :: rat
  topP :: rat

record GenerateContentParameters =
  model :: js_string
  contents :: js_string
  config :: GenerateContentConfig

text \<open>
  The remote dependency. A call either resolves with a response, whose \<open>text\<close> may be
  undefined, or rejects. The client is built from the API key on every call, so the
  remote call is a function of the key and of the request.

  The catch parameter is \<open>any\<close>, so a rejection is whatever value was thrown. The catch
  block reads its \<open>message\<close>, calls \<open>includes\<close> on it behind \<open>?.\<close>, and passes
  \<open>message || ...\<close> to \<open>new Error\<close>; a rejection is described by what these do.
  \<^item> \<open>NullOrUndefined\<close>: the rejection is \<open>null\<close> or \<open>undefined\<close>. Reading its
    \<open>message\<close> raises a TypeError; the argument is the text the runtime gives it.
  \<^item> \<open>Thrown\<close>: any other value, with the value of its \<open>message\<close>:
    \<^item> \<open>NoMessage\<close>: \<open>undefined\<close> or \<open>null\<close>, where \<open>?.\<close> stops;
    \<^item> \<open>Message\<close>: a string;
    \<^item> \<open>NoIncludes\<close>: a value that is not a string and has no \<open>includes\<close> method
      (a number, a boolean, a plain object). Calling \<open>includes\<close> raises a TypeError;
      the argument is the text the runtime gives it;
    \<^item> \<open>HasIncludes\<close>: an object with an \<open>includes\<close> method of its own (an array):
      whether the call returns a truthy value, and the string the object converts to.
      An object is truthy.
\<close>

datatype GenerateContentResponse = Response (response_text: "js_string option")

datatype message_value =
  NoMessage
| Message js_string
| NoIncludes js_string
| HasIncludes bool js_string

datatype thrown =
  NullOrUndefined js_string
| Thrown (message: message_value)

datatype outcome = Resolved GenerateContentResponse | Rejected thrown

type_synonym remote_call = "js_string \<times> GenerateContentParameters"

type_synonym remote = "js_string \<Rightarrow> GenerateContentParameters \<Rightarrow> outcome"

text \<open>
  What \<open>refinePrompt\<close> throws: an \<open>Error\<close> it creates, or a TypeError the runtime
  raises inside the catch block. Both have a \<open>message\<close>.
\<close>

datatype js_error = Error js_string | TypeError js_string

fun error_message :: "js_error \<Rightarrow> js_string" where
  "error_message (Error m) = m"
| "error_message (TypeError m) = m"

definition no_key_message :: js_string where
  "no_key_message = js ''No API key provided. Please set your Gemini API key in the settings.''"

definition empty_result_text :: js_string where
  "empty_result_text = js ''Failed to generate a refined prompt.''"

definition not_found_needle :: js_string where
  "not_found_needle = js ''Requested entity was not found''"

definition not_found_message :: js_string where
  "not_found_message = js ''Requested entity was not found. This often indicates a model or API key mismatch. Please check your API key selection.''"

definition generic_message :: js_string where
  "generic_message = js ''The AI encountered an issue refining your prompt.''"

definition default_modelName :: js_string where
  "default_modelName = js ''gemini-2.5-flash-lite''"

text \<open>
  \<open>refinePrompt\<close> returns what the promise settles with (\<open>Inl\<close> the thrown error,
  \<open>Inr\<close> the returned text) together with the list of remote calls it made, in order.
  \<open>generation_request\<close> is the argument of \<open>generateContent\<close>; an omitted
  \<open>modelName\<close> takes the parameter's default.
\<close>

definition generation_request ::
  "js_string \<Rightarrow> RefinementGoal \<Rightarrow> js_string option \<Rightarrow> GenerateContentParameters" where
  "generation_request rawPrompt g modelName =
     \<lparr>model = (case modelName of None \<Rightarrow> default_modelName | Some m \<Rightarrow> m),
      contents = rawPrompt,
      config = \<lparr>systemInstruction = getSystemInstruction g,
                temperature = 7 / 10,
                topP = 95 / 100\<rparr>\<rparr>"

definition refinePrompt ::
  "remote \<Rightarrow> js_string \<Rightarrow> RefinementGoal \<Rightarrow> js_string option \<Rightarrow> js_string option
     \<Rightarrow> (js_error + js_string) \<times> remote_call list" where
  "refinePrompt generateContent rawPrompt g modelName customApiKey =
     (if falsy customApiKey then (Inl (Error no_key_message), [])
      else
        let apiKey = the customApiKey;
            request = generation_request rawPrompt g modelName
        in (case generateContent apiKey request of
              Resolved response \<Rightarrow>
                (Inr (or_else (map_option String_trim (response_text response)) empty_result_text),
                 [(apiKey, request)])
            | Rejected error \<Rightarrow>
                ((case error of
                    NullOrUndefined t \<Rightarrow> Inl (TypeError t)
                  | Thrown NoMessage \<Rightarrow> Inl (Error generic_message)
                  | Thrown (Message m) \<Rightarrow>
                      if String_includes m not_found_needle then Inl (Error not_found_message)
                      else Inl (Error (or_else (Some m) generic_message))
                  | Thrown (NoIncludes t) \<Rightarrow> Inl (TypeError t)
                  | Thrown (HasIncludes found str) \<Rightarrow>
                      if found then Inl (Error not_found_message) else Inl (Error str)),
                 [(apiKey, request)])))"

section \<open>The runtime's JSON and number formatting\<close>

text \<open>
  \<open>Number.prototype.toString\<close> on an integer: its decimal digits, with a minus sign
  when negative. This is what the runtime prints for every integer of magnitude below
  \<open>10\<^sup>2\<^sup>1\<close>; \<open>Date.now()\<close> and the timestamps of history entries lie far inside.
\<close>

definition digit_unit :: "nat \<Rightarrow> code_unit" where
  "digit_unit d = 0x30 + of_nat d"

fun digits :: "nat \<Rightarrow> js_string" where
  "digits n = (if n < 10 then [digit_unit n] else digits (n div 10) @ [digit_unit (n mod 10)])"

definition Number_toString :: "int \<Rightarrow> js_string" where
  "Number_toString i = (if i < 0 then 0x2D # digits (nat (- i)) else digits (nat i))"

text \<open>
  \<open>QuoteJSONString\<close>: the two-character escapes, \<open>\uXXXX\<close> (lower-case hex) for the
  other control characters and for lone surrogates, everything else as it is. A high
  surrogate followed by a low surrogate is one code point and is copied.
\<close>

definition hex_unit :: "nat \<Rightarrow> code_unit" where
  "hex_unit d = (if d < 10 then 0x30 + of_nat d else 0x57 + of_nat d)"

definition hex4 :: "code_unit \<Rightarrow> js_string" where
  "hex4 c = (let n = unat c in
     [hex_unit (n div 4096), hex_unit (n div 256 mod 16), hex_unit (n div 16 mod 16),
      hex_unit (n mod 16)])"

definition is_high_surrogate :: "code_unit \<Rightarrow> bool" where
  "is_high_surrogate c \<longleftrightarrow> 0xD800 \<le> c \<and> c \<le> 0xDBFF"

definition is_low_surrogate :: "code_unit \<Rightarrow> bool" where
  "is_low_surrogate c \<longleftrightarrow> 0xDC00 \<le> c \<and> c \<le> 0xDFFF"

definition quote_unit :: "code_unit \<Rightarrow> js_string" where
  "quote_unit c =
     (if c = 0x08 then [0x5C, 0x62]
      else if c = 0x09 then [0x5C, 0x74]
      else if c = 0x0A then [0x5C, 0x6E]
      else if c = 0x0C then [0x5C, 0x66]
      else if c = 0x0D then [0x5C, 0x72]
      else if c = 0x22 then [0x5C, 0x22]
      else if c = 0x5C then [0x5C, 0x5C]
      else if c < 0x20 \<or> is_high_surrogate c \<or> is_low_surrogate c
        then [0x5C, 0x75] @ hex4 c
      else [c])"

fun quote_units :: "js_string \<Rightarrow> js_string" where
  "quote_units [] = []"
| "quote_units [c] = quote_unit c"
| "quote_units (c # d # s) =
     (if is_high_surrogate c \<and> is_low_surrogate d then c # d # quote_units s
      else quote_unit c @ quote_units (d # s))"

definition QuoteJSONString :: "js_string \<Rightarrow> js_string" where
  "QuoteJSONString s = 0x22 # quote_units s @ [0x22]"

text \<open>
  \<open>JSON.stringify\<close> on a value of type \<open>RefinementHistory[]\<close>: no white space, the
  properties of each object in the order the object literal of \<open>handleRefine\<close> creates
  them, the goal as the string value of the enum member.
\<close>

definition stringify_entry :: "RefinementHistory \<Rightarrow> js_string" where
  "stringify_entry e =
     [0x7B] @ QuoteJSONString (js ''id'') @ [0x3A] @ QuoteJSONString (entry_id e) @
     [0x2C] @ QuoteJSONString (js ''original'') @ [0x3A] @ QuoteJSONString (original e) @
     [0x2C] @ QuoteJSONString (js ''refined'') @ [0x3A] @ QuoteJSONString (refined e) @
     [0x2C] @ QuoteJSONString (js ''goal'') @ [0x3A] @ QuoteJSONString (goal_value (goal e)) @
     [0x2C] @ QuoteJSONString (js ''timestamp'') @ [0x3A] @ Number_toString (timestamp e) @
     [0x7D]"

fun stringify_entries :: "RefinementHistory list \<Rightarrow> js_string" where
  "stringify_entries [] = []"
| "stringify_entries [e] = stringify_entry e"
| "stringify_entries (e # es) = stringify_entry e @ [0x2C] @ stringify_entries es"

definition JSON_stringify :: "RefinementHistory list \<Rightarrow> js_string" where
  "JSON_stringify h = [0x5B] @ stringify_entries h @ [0x5D]"

text \<open>
  The values \<open>JSON.parse\<close> returns. An object lists its members in the order of the
  text. A number is the exact value of its literal; the runtime's number is the double
  nearest to it, which is the same value for every integer of magnitude up to \<open>2\<^sup>5\<^sup>3\<close>.
\<close>

datatype json =
  JNull
| JBool bool
| JNumber rat
| JString js_string
| JArray "json list"
| JObject "(js_string \<times> json) list"

datatype token =
  TLBracket | TRBracket | TLBrace | TRBrace | TComma | TColon
| TString js_string | TNumber rat | TTrue | TFalse | TNull

text \<open>
  The lexical grammar of JSON text (ECMA-404), read one code unit at a time. The state
  says which token is being read and what has been read of it.
\<close>

datatype lex_state =
  LStart
| LString js_string
| LEscape js_string
| LUnicode js_string nat nat
| LLiteral js_string token
| LMinus
| LZero bool
| LInt bool nat
| LDot bool nat
| LFrac bool nat nat
| LExp bool nat nat
| LExpSign bool nat nat bool
| LExpDigits bool nat nat bool nat

definition number_value :: "bool \<Rightarrow> nat \<Rightarrow> nat \<Rightarrow> bool \<Rightarrow> nat \<Rightarrow> rat" where
  "number_value neg mant fd eneg ex =
     (let m = (if neg then - of_nat mant else of_nat mant);
          p = (if eneg then - int ex else int ex) - int fd
      in if 0 \<le> p then m * 10 ^ nat p else m / 10 ^ nat (- p))"

definition is_digit :: "code_unit \<Rightarrow> bool" where
  "is_digit c \<longleftrightarrow> 0x30 \<le> c \<and> c \<le> 0x39"

definition digit_value :: "code_unit \<Rightarrow> nat" where
  "digit_value c = unat c - 48"

definition hex_value :: "code_unit \<Rightarrow> nat option" where
  "hex_value c =
     (if 0x30 \<le> c \<and> c \<le> 0x39 then Some (unat c - 48)
      else if 0x61 \<le> c \<and> c \<le> 0x66 then Some (unat c - 87)
      else if 0x41 \<le> c \<and> c \<le> 0x46 then Some (unat c - 55)
      else None)"

definition start_step :: "code_unit \<Rightarrow> (token list \<times> lex_state) option" where
  "start_step c =
     (if c = 0x09 \<or> c = 0x0A \<or> c = 0x0D \<or> c = 0x20 then Some ([], LStart)
      else if c = 0x5B then Some ([TLBracket], LStart)
      else if c = 0x5D then Some ([TRBracket], LStart)
      else if c = 0x7B then Some ([TLBrace], LStart)
      else if c = 0x7D then Some ([TRBrace], LStart)
      else if c = 0x2C then Some ([TComma], LStart)
      else if c = 0x3A then Some ([TColon], LStart)
      else if c = 0x22 then Some ([], LString [])
      else if c = 0x74 then Some ([], LLiteral (js ''rue'') TTrue)
      else if c = 0x66 then Some ([], LLiteral (js ''alse'') TFalse)
      else if c = 0x6E then Some ([], LLiteral (js ''ull'') TNull)
      else if c = 0x2D then Some ([], LMinus)
      else if c = 0x30 then Some ([], LZero False)
      else if is_digit c then Some ([], LInt False (digit_value c))
      else None)"

definition end_number :: "rat \<Rightarrow> code_unit \<Rightarrow> (token list \<times> lex_state) option" where
  "end_number v c = map_option (\<lambda>(ts, st). (TNumber v # ts, st)) (start_step c)"

fun lex_step :: "lex_state \<Rightarrow> code_unit \<Rightarrow> (token list \<times> lex_state) option" where
  "lex_step LStart c = start_step c"
| "lex_step (LString acc) c =
     (if c = 0x22 then Some ([TString (rev acc)], LStart)
      else if c = 0x5C then Some ([], LEscape acc)
      else if c < 0x20 then None
      else Some ([], LString (c # acc)))"
| "lex_step (LEscape acc) c =
     (if c = 0x22 \<or> c = 0x5C \<or> c = 0x2F then Some ([], LString (c # acc))
      else if c = 0x62 then Some ([], LString (0x08 # acc))
      else if c = 0x66 then Some ([], LString (0x0C # acc))
      else if c = 0x6E then Some ([], LString (0x0A # acc))
      else if c = 0x72 then Some ([], LString (0x0D # acc))
      else if c = 0x74 then Some ([], LString (0x09 # acc))
      else if c = 0x75 then Some ([], LUnicode acc 0 0)
      else None)"
| "lex_step (LUnicode acc k v) c =
     (case hex_value c of
        None \<Rightarrow> None
      | Some d \<Rightarrow>
          if k = 3 then Some ([], LString (of_nat (v * 16 + d) # acc))
          else Some ([], LUnicode acc (Suc k) (v * 16 + d)))"
| "lex_step (LLiteral [] t) c = None"
| "lex_step (LLiteral [x] t) c = (if c = x then Some ([t], LStart) else None)"
| "lex_step (LLiteral (x # y # r) t) c = (if c = x then Some ([], LLiteral (y # r) t) else None)"
| "lex_step LMinus c =
     (if c = 0x30 then Some ([], LZero True)
      else if is_digit c then Some ([], LInt True (digit_value c))
      else None)"
| "lex_step (LZero neg) c =
     (if c = 0x2E then Some ([], LDot neg 0)
      else if c = 0x65 \<or> c = 0x45 then Some ([], LExp neg 0 0)
      else end_number (number_value neg 0 0 False 0) c)"
| "lex_step (LInt neg n) c =
     (if is_digit c then Some ([], LInt neg (n * 10 + digit_value c))
      else if c = 0x2E then Some ([], LDot neg n)
      else if c = 0x65 \<or> c = 0x45 then Some ([], LExp neg n 0)
      else end_number (number_value neg n 0 False 0) c)"
| "lex_step (LDot neg n) c =
     (if is_digit c then Some ([], LFrac neg (n * 10 + digit_value c) 1) else None)"
| "lex_step (LFrac neg m k) c =
     (if is_digit c then Some ([], LFrac neg (m * 10 + digit_value c) (Suc k))
      else if c = 0x65 \<or> c = 0x45 then Some ([], LExp neg m k)
      else end_number (number_value neg m k False 0) c)"
| "lex_step (LExp neg m k) c =
     (if c = 0x2B then Some ([], LExpSign neg m k False)
      else if c = 0x2D then Some ([], LExpSign neg m k True)
      else if is_digit c then Some ([], LExpDigits neg m k False (digit_value c))
      else None)"
| "lex_step (LExpSign neg m k eneg) c =
     (if is_digit c then Some ([], LExpDigits neg m k eneg (digit_value c)) else None)"
| "lex_step (LExpDigits neg m k eneg ex) c =
     (if is_digit c then Some ([], LExpDigits neg m k eneg (ex * 10 + digit_value c))
      else end_number (number_value neg m k eneg ex) c)"

fun lex_end :: "lex_state \<Rightarrow> token list option" where
  "lex_end LStart = Some []"
| "lex_end (LZero neg) = Some [TNumber (number_value neg 0 0 False 0)]"
| "lex_end (LInt neg n) = Some [TNumber (number_value neg n 0 False 0)]"
| "lex_end (LFrac neg m k) = Some [TNumber (number_value neg m k False 0)]"
| "lex_end (LExpDigits neg m k eneg ex) = Some [TNumber (number_value neg m k eneg ex)]"
| "lex_end st = None"

fun tokenize :: "lex_state \<Rightarrow> js_string \<Rightarrow> token list option" where
  "tokenize st [] = lex_end st"
| "tokenize st (c # cs) =
     (case lex_step st c of
        None \<Rightarrow> None
      | Some (ts, st') \<Rightarrow> map_option (\<lambda>r. ts @ r) (tokenize st' cs))"

text \<open>
  The grammar of JSON values over the tokens, with an explicit stack of the arrays and
  objects that are still open.
\<close>

datatype frame =
  FArray "json list"
| FObject "(js_string \<times> json) list" js_string

datatype parse_state =
  PValue "frame list"
| PArrayStart "frame list"
| PArrayNext "json list" "frame list"
| PObjectStart "frame list"
| PKey "(js_string \<times> json) list" "frame list"
| PColon "(js_string \<times> json) list" js_string "frame list"
| PObjectNext "(js_string \<times> json) list" "frame list"
| PDone json

fun push_value :: "json \<Rightarrow> frame list \<Rightarrow> parse_state" where
  "push_value v [] = PDone v"
| "push_value v (FArray es # st) = PArrayNext (v # es) st"
| "push_value v (FObject ms k # st) = PObjectNext ((k, v) # ms) st"

fun value_step :: "frame list \<Rightarrow> token \<Rightarrow> parse_state option" where
  "value_step st TLBracket = Some (PArrayStart st)"
| "value_step st TLBrace = Some (PObjectStart st)"
| "value_step st (TString s) = Some (push_value (JString s) st)"
| "value_step st (TNumber n) = Some (push_value (JNumber n) st)"
| "value_step st TTrue = Some (push_value (JBool True) st)"
| "value_step st TFalse = Some (push_value (JBool False) st)"
| "value_step st TNull = Some (push_value JNull st)"
| "value_step st t = None"

fun parse_step :: "parse_state \<Rightarrow> token \<Rightarrow> parse_state option" where
  "parse_step (PValue st) t = value_step st t"
| "parse_step (PArrayStart st) t =
     (if t = TRBracket then Some (push_value (JArray []) st) else value_step (FArray [] # st) t)"
| "parse_step (PArrayNext es st) t =
     (if t = TComma then Some (PValue (FArray es # st))
      else if t = TRBracket then Some (push_value (JArray (rev es)) st)
      else None)"
| "parse_step (PObjectStart st) t =
     (case t of TRBrace \<Rightarrow> Some (push_value (JObject []) st)
      | TString k \<Rightarrow> Some (PColon [] k st)
      | _ \<Rightarrow> None)"
| "parse_step (PKey ms st) t =
     (case t of TString k \<Rightarrow> Some (PColon ms k st) | _ \<Rightarrow> None)"
| "parse_step (PColon ms k st) t =
     (if t = TColon then Some (PValue (FObject ms k # st)) else None)"
| "parse_step (PObjectNext ms st) t =
     (if t = TComma then Some (PKey ms st)
      else if t = TRBrace then Some (push_value (JObject (rev ms)) st)
      else None)"
| "parse_step (PDone v) t = None"

fun parse_run :: "parse_state \<Rightarrow> token list \<Rightarrow> parse_state option" where
  "parse_run p [] = Some p"
| "parse_run p (t # ts) = (case parse_step p t of None \<Rightarrow> None | Some p' \<Rightarrow> parse_run p' ts)"

definition parse_tokens :: "token list \<Rightarrow> json option" where
  "parse_tokens ts = (case parse_run (PValue []) ts of Some (PDone v) \<Rightarrow> Some v | _ \<Rightarrow> None)"

text \<open>\<open>JSON.parse\<close>: \<open>None\<close> is the SyntaxError it throws.\<close>

definition JSON_parse :: "js_string \<Rightarrow> json option" where
  "JSON_parse s = (case tokenize LStart s of None \<Rightarrow> None | Some ts \<Rightarrow> parse_tokens ts)"

section \<open>App.tsx\<close>

text \<open>
  The run-time value of a \<open>RefinementHistory\<close> object and of a list of them, and the
  shape a run-time value must have to be of type \<open>RefinementHistory[]\<close>: an array of
  objects with string properties \<open>id\<close>, \<open>original\<close>, \<open>refined\<close>, a \<open>goal\<close> that is
  one of the enum's values, and a number \<open>timestamp\<close>. A property written twice in
  JSON text has its last value.
\<close>

definition entry_json :: "RefinementHistory \<Rightarrow> json" where
  "entry_json e = JObject
     [(js ''id'', JString (entry_id e)),
      (js ''original'', JString (original e)),
      (js ''refined'', JString (refined e)),
      (js ''goal'', JString (goal_value (goal e))),
      (js ''timestamp'', JNumber (of_int (timestamp e)))]"

definition history_json :: "RefinementHistory list \<Rightarrow> json" where
  "history_json h = JArray (map entry_json h)"

fun is_string :: "json option \<Rightarrow> bool" where
  "is_string (Some (JString s)) = True"
| "is_string v = False"

fun is_number :: "json option \<Rightarrow> bool" where
  "is_number (Some (JNumber n)) = True"
| "is_number v = False"

fun is_goal :: "json option \<Rightarrow> bool" where
  "is_goal (Some (JString s)) =
     (s \<in> set (map goal_value [GENERAL, TECHNICAL, CREATIVE, CONCISE, CODING, STRUCTURED]))"
| "is_goal v = False"

fun is_RefinementHistory :: "json \<Rightarrow> bool" where
  "is_RefinementHistory (JObject ms) =
     (let prop = map_of (rev ms)
      in is_string (prop (js ''id'')) \<and> is_string (prop (js ''original'')) \<and>
         is_string (prop (js ''refined'')) \<and> is_goal (prop (js ''goal'')) \<and>
         is_number (prop (js ''timestamp'')))"
| "is_RefinementHistory v = False"

fun is_history_list :: "json \<Rightarrow> bool" where
  "is_history_list (JArray xs) = list_all is_RefinementHistory xs"
| "is_history_list v = False"

text \<open>
  \<open>localStorage\<close> maps keys to strings; \<open>getItem\<close> of a missing key is \<open>null\<close>.
\<close>

type_synonym storage = "js_string \<rightharpoonup> js_string"

definition history_key :: js_string where
  "history_key = js ''prompt_history''"

text \<open>
  The effect that loads the history. It is given the current value of the state, which
  it leaves as it is when the key is missing, the saved text is empty, or
  \<open>JSON.parse\<close> throws; otherwise the state becomes whatever \<open>JSON.parse\<close> returned.
  The state starts as the empty array.
\<close>

definition loadHistory :: "storage \<Rightarrow> json \<Rightarrow> json" where
  "loadHistory localStorage history0 =
     (case localStorage history_key of
        None \<Rightarrow> history0
      | Some savedHistory \<Rightarrow>
          if savedHistory = [] then history0
          else (case JSON_parse savedHistory of
                  None \<Rightarrow> history0
                | Some parsed \<Rightarrow> parsed))"

definition load :: "storage \<Rightarrow> json" where
  "load localStorage = loadHistory localStorage (JArray [])"

text \<open>The effect that saves the history after every change of it.\<close>

definition persist :: "RefinementHistory list \<Rightarrow> storage \<Rightarrow> storage" where
  "persist h localStorage = localStorage(history_key \<mapsto> JSON_stringify h)"

text \<open>The state updater of \<open>handleRefine\<close>: \<open>prev => [newEntry, ...prev].slice(0, 10)\<close>.\<close>

definition record_entry :: "'a \<Rightarrow> 'a list \<Rightarrow> 'a list" where
  "record_entry newEntry prev = take 10 (newEntry # prev)"

text \<open>
  The state of the component. \<open>refined\<close> and \<open>goal\<close> are also fields of a history
  entry, so the state's are \<open>refined_st\<close> and \<open>goal_st\<close>.
\<close>

record App_state =
  input :: js_string
  refined_st :: js_string
  goal_st :: RefinementGoal
  selectedModel :: js_string
  isLoading :: bool
  history :: "RefinementHistory list"
  copied :: bool
  error :: "js_string option"
  customApiKey :: js_string
  hasCustomKey :: bool
  isKeyModalOpen :: bool

text \<open>
  \<open>handleRefine\<close>, from the click to the end of its \<open>finally\<close> block, with no other
  event in between. \<open>now1\<close> and \<open>now2\<close> are what the two calls of \<open>Date.now()\<close> return,
  in the order the object literal evaluates them. The result is the state afterwards
  and the remote calls made.
\<close>

definition handleRefine ::
  "remote \<Rightarrow> int \<Rightarrow> int \<Rightarrow> App_state \<Rightarrow> App_state \<times> remote_call list" where
  "handleRefine generateContent now1 now2 s =
     (if String_trim (input s) = [] then (s, [])
      else
        let s1 = s\<lparr>isLoading := True, error := None\<rparr>;
            modelToUse = (if hasCustomKey s then selectedModel s else js ''gemini-2.5-flash'');
            (outcome, calls) =
              refinePrompt generateContent (input s) (goal_st s) (Some modelToUse)
                (Some (customApiKey s))
        in (case outcome of
              Inr result \<Rightarrow>
                let newEntry = \<lparr>entry_id = Number_toString now1,
                                original = input s,
                                refined = result,
                                goal = goal_st s,
                                timestamp = now2\<rparr>
                in (s1\<lparr>refined_st := result,
                       history := record_entry newEntry (history s1),
                       isLoading := False\<rparr>, calls)
            | Inl err \<Rightarrow>
                (s1\<lparr>error := Some (or_else (Some (error_message err)) (js ''An error occurred'')),
                    isLoading := False\<rparr>, calls)))"

text \<open>
  The tokens of the text \<open>JSON.stringify\<close> writes for a history: the same walk over
  the list as \<open>stringify_entries\<close>, with a token where that writes its text.
\<close>

definition entry_tokens :: "RefinementHistory \<Rightarrow> token list" where
  "entry_tokens e =
     [TLBrace, TString (js ''id''), TColon, TString (entry_id e), TComma,
      TString (js ''original''), TColon, TString (original e), TComma,
      TString (js ''refined''), TColon, TString (refined e), TComma,
      TString (js ''goal''), TColon, TString (goal_value (goal e)), TComma,
      TString (js ''timestamp''), TColon, TNumber (of_int (timestamp e)), TRBrace]"

fun entries_tokens :: "RefinementHistory list \<Rightarrow> token list" where
  "entries_tokens [] = []"
| "entries_tokens [e] = entry_tokens e"
| "entries_tokens (e # es) = entry_tokens e @ [TComma] @ entries_tokens es"

text \<open>
  A timestamp is a time value: an integer number of milliseconds within the range of
  \<open>Date\<close>, which is where \<open>Number_toString\<close> is what the runtime prints.
\<close>

definition valid_entry :: "RefinementHistory \<Rightarrow> bool" where
  "valid_entry e \<longleftrightarrow> - 8640000000000000 \<le> timestamp e \<and> timestamp e \<le> 8640000000000000"

text \<open>An entry, for the concrete instances below.\<close>

definition example_entry :: RefinementHistory where
  "example_entry = \<lparr>entry_id = js ''1700000000000'', original = js ''hi'',
     refined = js ''Hello.'', goal = GENERAL, timestamp = 1700000000000\<rparr>"

text \<open>A state of the component, for the concrete instances below.\<close>

definition example_state :: App_state where
  "example_state =
     \<lparr>input = js ''hi'', refined_st = [], goal_st = GENERAL,
      selectedModel = js ''gemini-3-flash-preview'', isLoading = False, history = [],
      copied = False, error = None, customApiKey = js ''k'', hasCustomKey = True,
      isKeyModalOpen = False\<rparr>"

section \<open>Strings: what trim and includes compute\<close>

lemma falsy_iff: "falsy x \<longleftrightarrow> x = None \<or> x = Some []"
  by (simp add: falsy_def split: option.splits)

lemma String_startsWith_iff: "String_startsWith s t \<longleftrightarrow> (\<exists>r. s = t @ r)"
  by (induction s t rule: String_startsWith.induct) auto

lemma String_includes_iff: "String_includes s t \<longleftrightarrow> (\<exists>p r. s = p @ t @ r)"
proof (induction s)
  case Nil
  then show ?case by simp
next
  case (Cons c s)
  show ?case
  proof
    assume "String_includes (c # s) t"
    then consider "String_startsWith (c # s) t" | "String_includes s t" by auto
    then show "\<exists>p r. c # s = p @ t @ r"
    proof cases
      case 1
      then obtain r where "c # s = t @ r" by (auto simp: String_startsWith_iff)
      then have "c # s = [] @ t @ r" by simp
      then show ?thesis by blast
    next
      case 2
      then obtain p r where "s = p @ t @ r" using Cons.IH by blast
      then have "c # s = (c # p) @ t @ r" by simp
      then show ?thesis by blast
    qed
  next
    assume "\<exists>p r. c # s = p @ t @ r"
    then obtain p r where eq: "c # s = p @ t @ r" by blast
    show "String_includes (c # s) t"
    proof (cases p)
      case Nil
      with eq have "String_startsWith (c # s) t"
        by (auto simp: String_startsWith_iff)
      then show ?thesis by simp
    next
      case (Cons d q)
      with eq have "s = q @ t @ r" by simp
      then have "String_includes s t" using Cons.IH by blast
      then show ?thesis by simp
    qed
  qed
qed

lemma String_trim_empty_iff: "String_trim s = [] \<longleftrightarrow> (\<forall>c \<in> set s. WhiteSpace c)"
proof
  assume "String_trim s = []"
  then have all: "\<forall>c \<in> set (dropWhile WhiteSpace s). WhiteSpace c"
    by (simp add: String_trim_def)
  have "dropWhile WhiteSpace s = []"
  proof (rule ccontr)
    assume ne: "dropWhile WhiteSpace s \<noteq> []"
    then have "\<not> WhiteSpace (hd (dropWhile WhiteSpace s))" by (rule hd_dropWhile)
    moreover have "hd (dropWhile WhiteSpace s) \<in> set (dropWhile WhiteSpace s)"
      using ne by (rule hd_in_set)
    ultimately show False using all by blast
  qed
  then show "\<forall>c \<in> set s. WhiteSpace c" by simp
next
  assume "\<forall>c \<in> set s. WhiteSpace c"
  then have "dropWhile WhiteSpace s = []" by simp
  then show "String_trim s = []"
    unfolding String_trim_def by (simp only: rev.simps dropWhile.simps)
qed

lemma String_trim_decompose:
  "\<exists>l r. s = l @ String_trim s @ r \<and> (\<forall>c \<in> set l. WhiteSpace c) \<and> (\<forall>c \<in> set r. WhiteSpace c)"
proof -
  let ?l = "takeWhile WhiteSpace s"
  let ?m = "dropWhile WhiteSpace s"
  let ?r = "rev (takeWhile WhiteSpace (rev ?m))"
  have "rev ?m = takeWhile WhiteSpace (rev ?m) @ dropWhile WhiteSpace (rev ?m)"
    by simp
  then have "?m = rev (dropWhile WhiteSpace (rev ?m)) @ ?r"
    by (metis rev_append rev_rev_ident)
  then have "s = ?l @ String_trim s @ ?r"
    by (metis String_trim_def takeWhile_dropWhile_id)
  moreover have "\<forall>c \<in> set ?l. WhiteSpace c"
    by (auto dest: set_takeWhileD)
  moreover have "\<forall>c \<in> set ?r. WhiteSpace c"
    by (auto dest: set_takeWhileD)
  ultimately show ?thesis by blast
qed

lemma String_trim_ends:
  assumes "String_trim s \<noteq> []"
  shows "\<not> WhiteSpace (hd (String_trim s))" and "\<not> WhiteSpace (last (String_trim s))"
proof -
  let ?m = "dropWhile WhiteSpace s"
  let ?k = "dropWhile WhiteSpace (rev ?m)"
  have k: "?k \<noteq> []" using assms by (simp add: String_trim_def)
  then have hk: "\<not> WhiteSpace (hd ?k)" by (rule hd_dropWhile)
  have "last (String_trim s) = hd ?k"
    using k by (simp add: String_trim_def last_rev)
  then show "\<not> WhiteSpace (last (String_trim s))" using hk by simp
  have m: "?m \<noteq> []"
  proof
    assume "?m = []"
    then have "?k = []" by (simp only: rev.simps dropWhile.simps)
    with k show False by contradiction
  qed
  then have hm: "\<not> WhiteSpace (hd ?m)" by (rule hd_dropWhile)
  obtain t where t: "rev ?m = takeWhile WhiteSpace (rev ?m) @ ?k" by simp
  have "?m = rev ?k @ rev (takeWhile WhiteSpace (rev ?m))"
    by (metis rev_append rev_rev_ident takeWhile_dropWhile_id)
  then have "hd ?m = hd (rev ?k)" using k by (metis hd_append2 rev_is_Nil_conv)
  then show "\<not> WhiteSpace (hd (String_trim s))" using hm by (simp add: String_trim_def)
qed

section \<open>Reading back what JSON.stringify writes\<close>

text \<open>
  The lexer reads every piece of the text that \<open>JSON.stringify\<close> writes back to the
  token it stands for: an escaped code unit, a quoted string, the digits of an integer,
  an entry, the whole array. The parser then rebuilds the value.
\<close>

lemma map_option_append_Nil: "map_option ((@) []) x = x"
  by (cases x) simp_all

lemma append_single: "(@) [t] = (#) t"
  by (rule ext) simp

lemma append_pair: "(@) [t, u] = (\<lambda>r. t # u # r)"
  by (rule ext) simp

lemma upt16: "[0..<16] = [0, 1, 2, 3, 4, 5, 6, 7, 8, 9, 10, 11, 12, 13, 14, 15::nat]"
  by (simp add: upt_conv_Cons)

lemma small_cases16:
  assumes "d < (16::nat)"
  shows "d \<in> {0, 1, 2, 3, 4, 5, 6, 7, 8, 9, 10, 11, 12, 13, 14, 15}"
proof -
  have "d \<in> set [0..<16]" using assms by simp
  then show ?thesis unfolding upt16 by simp
qed

lemma hex_table:
  "map (\<lambda>d. hex_value (hex_unit d)) [0, 1, 2, 3, 4, 5, 6, 7, 8, 9, 10, 11, 12, 13, 14, 15] =
   map Some [0, 1, 2, 3, 4, 5, 6, 7, 8, 9, 10, 11, 12, 13, 14, 15]"
  by (simp add: hex_value_def hex_unit_def)

lemma hex_value_hex_unit:
  assumes "d < 16"
  shows "hex_value (hex_unit d) = Some d"
  using small_cases16 [OF assms] hex_table by (elim insertE) simp_all

lemma hex4_recombine:
  fixes n :: nat
  shows "((n div 4096 * 16 + n div 256 mod 16) * 16 + n div 16 mod 16) * 16 + n mod 16 = n"
proof -
  have q2: "n div 256 = n div 16 div 16" by (simp add: div_mult2_eq [symmetric])
  have q3: "n div 4096 = n div 16 div 16 div 16" by (simp add: div_mult2_eq [symmetric])
  show ?thesis unfolding q2 q3 by (simp only: div_mult_mod_eq)
qed

lemma hex4_top: "n < 65536 \<Longrightarrow> n div 4096 < (16::nat)"
  by (simp add: less_mult_imp_div_less)

lemma unicode_step:
  assumes "d < 16"
  shows "tokenize (LUnicode acc k v) (hex_unit d # rest) =
    (if k = 3 then tokenize (LString (of_nat (v * 16 + d) # acc)) rest
     else tokenize (LUnicode acc (Suc k) (v * 16 + d)) rest)"
  by (simp add: hex_value_hex_unit [OF assms] map_option_append_Nil)

lemma tokenize_hex4:
  "tokenize (LUnicode acc 0 0) (hex4 c @ rest) = tokenize (LString (c # acc)) rest"
proof -
  define n where "n = unat c"
  have n: "n < 65536" using unsigned_less [of c] by (simp add: n_def)
  have c: "of_nat n = c" by (simp add: n_def)
  have d1: "n div 4096 < 16" using n by (rule hex4_top)
  have d2: "n div 256 mod 16 < 16" and d3: "n div 16 mod 16 < 16" and d4: "n mod 16 < 16"
    by simp_all
  have "tokenize (LUnicode acc 0 0) (hex4 c @ rest) =
    tokenize (LString (of_nat (((n div 4096 * 16 + n div 256 mod 16) * 16 + n div 16 mod 16) * 16 + n mod 16) # acc)) rest"
    unfolding hex4_def Let_def n_def [symmetric] append_Cons append_Nil
    by (simp only: unicode_step [OF d1] unicode_step [OF d2] unicode_step [OF d3]
        unicode_step [OF d4]) simp
  then show ?thesis by (simp only: hex4_recombine c)
qed


lemma tokenize_escape_u:
  "tokenize (LString acc) (0x5C # 0x75 # xs) = tokenize (LUnicode acc 0 0) xs"
  by (simp add: map_option_append_Nil)

lemma tokenize_quote_unit:
  "tokenize (LString acc) (quote_unit c @ rest) = tokenize (LString (c # acc)) rest"
proof -
  consider (special) "c = 0x08 \<or> c = 0x09 \<or> c = 0x0A \<or> c = 0x0C \<or> c = 0x0D \<or> c = 0x22 \<or> c = 0x5C"
    | (hex) "\<not> (c = 0x08 \<or> c = 0x09 \<or> c = 0x0A \<or> c = 0x0C \<or> c = 0x0D \<or> c = 0x22 \<or> c = 0x5C)"
        "c < 0x20 \<or> is_high_surrogate c \<or> is_low_surrogate c"
    | (plain) "\<not> (c = 0x08 \<or> c = 0x09 \<or> c = 0x0A \<or> c = 0x0C \<or> c = 0x0D \<or> c = 0x22 \<or> c = 0x5C)"
        "\<not> (c < 0x20 \<or> is_high_surrogate c \<or> is_low_surrogate c)"
    by blast
  then show ?thesis
  proof cases
    case special
    then show ?thesis
      by (elim disjE) (simp_all add: quote_unit_def map_option_append_Nil)
  next
    case hex
    then have "quote_unit c = 0x5C # 0x75 # hex4 c"
      by (simp add: quote_unit_def)
    then show ?thesis
      by (simp only: append_Cons tokenize_escape_u tokenize_hex4)
  next
    case plain
    then have q: "quote_unit c = [c]" by (simp add: quote_unit_def)
    from plain have "lex_step (LString acc) c = Some ([], LString (c # acc))" by simp
    then show ?thesis unfolding q by (simp add: map_option_append_Nil)
  qed
qed

lemma surrogate_plain:
  assumes "is_high_surrogate c \<or> is_low_surrogate c"
  shows "tokenize (LString acc) (c # rest) = tokenize (LString (c # acc)) rest"
proof -
  have "c \<noteq> 0x22" "c \<noteq> 0x5C" "\<not> c < 0x20"
    using assms
    by (auto simp add: is_high_surrogate_def is_low_surrogate_def word_less_nat_alt
        word_le_nat_alt)
  then show ?thesis by (simp add: map_option_append_Nil)
qed

lemma tokenize_closing_quote:
  "tokenize (LString acc) (0x22 # rest) =
     map_option (Cons (TString (rev acc))) (tokenize LStart rest)"
  by (simp add: append_single)

lemma tokenize_quote_units:
  "tokenize (LString acc) (quote_units s @ 0x22 # rest) =
     map_option (Cons (TString (rev acc @ s))) (tokenize LStart rest)"
proof (induction s arbitrary: acc rule: quote_units.induct)
  case 1
  show ?case by (simp only: quote_units.simps append_Nil tokenize_closing_quote append_Nil2)
next
  case (2 c)
  show ?case
    by (simp only: quote_units.simps tokenize_quote_unit tokenize_closing_quote rev.simps)
next
  case (3 c d s)
  show ?case
  proof (cases "is_high_surrogate c \<and> is_low_surrogate d")
    case True
    have eq: "quote_units (c # d # s) = c # d # quote_units s"
      by (simp only: quote_units.simps True if_True simp_thms)
    show ?thesis
      using True "3.IH"(1) [OF True, of "d # c # acc"]
      by (simp add: eq surrogate_plain del: tokenize.simps quote_units.simps)
  next
    case False
    have eq: "quote_units (c # d # s) = quote_unit c @ quote_units (d # s)"
      by (simp only: quote_units.simps False if_False simp_thms)
    show ?thesis
      using "3.IH"(2) [OF False, of "c # acc"]
      by (simp add: eq tokenize_quote_unit del: tokenize.simps quote_units.simps)
  qed
qed

lemma tokenize_QuoteJSONString:
  "tokenize LStart (QuoteJSONString s @ rest) =
     map_option (Cons (TString s)) (tokenize LStart rest)"
  using tokenize_quote_units [of "[]" s rest]
  by (simp add: QuoteJSONString_def start_step_def map_option_append_Nil del: tokenize.simps)
    (simp add: start_step_def map_option_append_Nil)


lemma small_cases10:
  assumes "d < (10::nat)"
  shows "d \<in> {0, 1, 2, 3, 4, 5, 6, 7, 8, 9}"
  using small_cases16 [of d] assms by auto

lemma digit_table_start:
  "map (\<lambda>d. start_step (digit_unit d)) [1, 2, 3, 4, 5, 6, 7, 8, 9] =
   map (\<lambda>d. Some ([], LInt False d)) [1, 2, 3, 4, 5, 6, 7, 8, 9]"
  by (simp add: start_step_def digit_unit_def is_digit_def digit_value_def)

lemma digit_table_minus:
  "map (\<lambda>d. lex_step LMinus (digit_unit d)) [1, 2, 3, 4, 5, 6, 7, 8, 9] =
   map (\<lambda>d. Some ([], LInt True d)) [1, 2, 3, 4, 5, 6, 7, 8, 9]"
  by (simp add: digit_unit_def is_digit_def digit_value_def)

lemma digit_table_int:
  "map (\<lambda>d. (is_digit (digit_unit d), digit_value (digit_unit d))) [0, 1, 2, 3, 4, 5, 6, 7, 8, 9] =
   map (\<lambda>d. (True, d)) [0, 1, 2, 3, 4, 5, 6, 7, 8, 9]"
  by (simp add: digit_unit_def is_digit_def digit_value_def)

lemma start_step_digit:
  assumes "0 < d" "d < 10"
  shows "start_step (digit_unit d) = Some ([], LInt False d)"
  using small_cases10 [OF assms(2)] assms(1) digit_table_start by (elim insertE) simp_all

lemma minus_step_digit:
  assumes "0 < d" "d < 10"
  shows "lex_step LMinus (digit_unit d) = Some ([], LInt True d)"
  using small_cases10 [OF assms(2)] assms(1) digit_table_minus by (elim insertE) simp_all

lemma int_step_digit:
  assumes "d < 10"
  shows "lex_step (LInt neg n) (digit_unit d) = Some ([], LInt neg (n * 10 + d))"
proof -
  have "is_digit (digit_unit d) \<and> digit_value (digit_unit d) = d"
    using small_cases10 [OF assms] digit_table_int by (elim insertE) simp_all
  then show ?thesis by simp
qed


lemma tokenize_int_digit:
  assumes "d < 10"
  shows "tokenize (LInt neg n) (digit_unit d # rest) = tokenize (LInt neg (n * 10 + d)) rest"
  by (simp add: int_step_digit [OF assms] map_option_append_Nil del: lex_step.simps)

lemma tokenize_first_digit:
  assumes "0 < d" "d < 10"
  shows "tokenize LStart (digit_unit d # rest) = tokenize (LInt False d) rest"
    and "tokenize LMinus (digit_unit d # rest) = tokenize (LInt True d) rest"
  using start_step_digit [OF assms] minus_step_digit [OF assms]
  by (simp_all add: map_option_append_Nil del: lex_step.simps) (simp add: map_option_append_Nil)

lemma tokenize_digits:
  assumes "0 < n"
  shows "tokenize LStart (digits n @ rest) = tokenize (LInt False n) rest \<and>
         tokenize LMinus (digits n @ rest) = tokenize (LInt True n) rest"
  using assms
proof (induction n arbitrary: rest rule: digits.induct)
  case (1 n)
  show ?case
  proof (cases "n < 10")
    case True
    then have d: "digits n = [digit_unit n]" by (subst digits.simps) simp
    show ?thesis
      unfolding d using tokenize_first_digit [OF "1.prems" True] by simp
  next
    case False
    then have d: "digits n = digits (n div 10) @ [digit_unit (n mod 10)]"
      by (subst digits.simps) simp
    have pos: "0 < n div 10" using False by simp
    have m: "n mod 10 < 10" by simp
    have r: "n div 10 * 10 + n mod 10 = n" by simp
    show ?thesis
      unfolding d append_assoc append_Cons append_Nil
      using "1.IH" [OF False pos, of "digit_unit (n mod 10) # rest"]
      by (simp only: tokenize_int_digit [OF m] r)
  qed
qed


lemma tokenize_int_end:
  "tokenize (LInt neg n) (0x7D # rest) =
     map_option (\<lambda>r. TNumber (if neg then - of_nat n else of_nat n) # TRBrace # r)
       (tokenize LStart rest)"
  by (simp add: end_number_def start_step_def is_digit_def number_value_def
      option.map_comp comp_def append_pair)

lemma tokenize_zero_end:
  "tokenize LStart (digits 0 @ 0x7D # rest) =
     map_option (\<lambda>r. TNumber 0 # TRBrace # r) (tokenize LStart rest)"
  by (simp add: digit_unit_def end_number_def start_step_def is_digit_def number_value_def
      option.map_comp comp_def append_pair map_option_append_Nil)

lemma tokenize_Number_toString:
  "tokenize LStart (Number_toString i @ 0x7D # rest) =
     map_option (\<lambda>r. TNumber (of_int i) # TRBrace # r) (tokenize LStart rest)"
proof -
  consider (neg) "i < 0" | (zero) "i = 0" | (pos) "0 < i" by linarith
  then show ?thesis
  proof cases
    case neg
    then have n: "0 < nat (- i)" by simp
    have v: "- rat_of_nat (nat (- i)) = of_int i" using neg by simp
    have "tokenize LStart (0x2D # digits (nat (- i)) @ 0x7D # rest) =
      tokenize LMinus (digits (nat (- i)) @ 0x7D # rest)"
      by (simp add: start_step_def map_option_append_Nil)
    then show ?thesis
      using neg tokenize_digits [OF n, of "0x7D # rest"]
      by (simp add: Number_toString_def tokenize_int_end v del: tokenize.simps)
  next
    case zero
    then show ?thesis
      using tokenize_zero_end [of rest] by (simp add: Number_toString_def del: tokenize.simps digits.simps)
  next
    case pos
    then have n: "0 < nat i" by simp
    have v: "rat_of_nat (nat i) = of_int i" using pos by simp
    show ?thesis
      using pos tokenize_digits [OF n, of "0x7D # rest"]
      by (simp add: Number_toString_def tokenize_int_end v del: tokenize.simps)
  qed
qed



lemma tokenize_punctuation:
  "tokenize LStart (0x5B # rest) = map_option (Cons TLBracket) (tokenize LStart rest)"
  "tokenize LStart (0x5D # rest) = map_option (Cons TRBracket) (tokenize LStart rest)"
  "tokenize LStart (0x7B # rest) = map_option (Cons TLBrace) (tokenize LStart rest)"
  "tokenize LStart (0x7D # rest) = map_option (Cons TRBrace) (tokenize LStart rest)"
  "tokenize LStart (0x2C # rest) = map_option (Cons TComma) (tokenize LStart rest)"
  "tokenize LStart (0x3A # rest) = map_option (Cons TColon) (tokenize LStart rest)"
  by (simp_all add: start_step_def append_single)

lemma tokenize_stringify_entry:
  "tokenize LStart (stringify_entry e @ rest) =
     map_option (\<lambda>r. entry_tokens e @ r) (tokenize LStart rest)"
  unfolding stringify_entry_def entry_tokens_def append_assoc append_Cons append_Nil
  by (simp only: tokenize_punctuation tokenize_QuoteJSONString tokenize_Number_toString
      option.map_comp comp_def)

lemma tokenize_stringify_entries:
  "tokenize LStart (stringify_entries h @ 0x5D # rest) =
     map_option (\<lambda>r. entries_tokens h @ TRBracket # r) (tokenize LStart rest)"
proof (induction h rule: stringify_entries.induct)
  case 1
  show ?case by (simp only: stringify_entries.simps entries_tokens.simps append_Nil
        tokenize_punctuation)
next
  case (2 e)
  show ?case
    by (simp only: stringify_entries.simps entries_tokens.simps tokenize_stringify_entry
        tokenize_punctuation option.map_comp comp_def)
next
  case (3 e e' es)
  show ?case
    using "3.IH"
    by (simp only: stringify_entries.simps entries_tokens.simps append_assoc append_Cons
        append_Nil tokenize_stringify_entry tokenize_punctuation option.map_comp comp_def)
qed

lemma tokenize_JSON_stringify:
  "tokenize LStart (JSON_stringify h) = Some (TLBracket # entries_tokens h @ [TRBracket])"
  using tokenize_stringify_entries [of h "[]"]
  by (simp add: JSON_stringify_def tokenize_punctuation del: tokenize.simps) simp


lemma parse_run_entry:
  "parse_run (PValue (FArray es # st)) (entry_tokens e @ rest) =
     parse_run (PArrayNext (entry_json e # es) st) rest"
  by (simp add: entry_tokens_def entry_json_def)

lemma parse_run_first_entry:
  "parse_run (PArrayStart st) (entry_tokens e @ rest) =
     parse_run (PArrayNext [entry_json e] st) rest"
  by (simp add: entry_tokens_def entry_json_def)

lemma parse_run_more_entries:
  "parse_run (PArrayNext es st) (concat (map (\<lambda>e. TComma # entry_tokens e) h) @ rest) =
     parse_run (PArrayNext (rev (map entry_json h) @ es) st) rest"
proof (induction h arbitrary: es)
  case Nil
  show ?case by simp
next
  case (Cons e h)
  have "parse_run (PArrayNext es st) (TComma # entry_tokens e @ concat (map (\<lambda>e. TComma # entry_tokens e) h) @ rest) =
    parse_run (PValue (FArray es # st)) (entry_tokens e @ concat (map (\<lambda>e. TComma # entry_tokens e) h) @ rest)"
    by simp
  then show ?case
    using Cons.IH [of "entry_json e # es"]
    by (simp add: parse_run_entry del: parse_run.simps)
qed

lemma entries_tokens_Cons:
  "entries_tokens (e # h) = entry_tokens e @ concat (map (\<lambda>e. TComma # entry_tokens e) h)"
  by (induction h arbitrary: e) simp_all

lemma parse_tokens_history:
  "parse_tokens (TLBracket # entries_tokens h @ [TRBracket]) = Some (history_json h)"
proof (cases h)
  case Nil
  then show ?thesis by (simp add: parse_tokens_def history_json_def)
next
  case (Cons e h')
  have "parse_run (PValue []) (TLBracket # entries_tokens h @ [TRBracket]) =
    parse_run (PArrayStart []) (entry_tokens e @ concat (map (\<lambda>e. TComma # entry_tokens e) h') @ [TRBracket])"
    by (simp add: Cons entries_tokens_Cons del: entries_tokens.simps)
  also have "\<dots> = parse_run (PArrayNext (rev (map entry_json h') @ [entry_json e]) []) [TRBracket]"
    by (simp only: parse_run_first_entry parse_run_more_entries)
  also have "\<dots> = Some (PDone (JArray (map entry_json h)))"
    by (simp add: Cons)
  finally show ?thesis by (simp add: parse_tokens_def history_json_def)
qed

lemma JSON_parse_stringify:
  "JSON_parse (JSON_stringify h) = Some (history_json h)"
  by (simp add: JSON_parse_def tokenize_JSON_stringify parse_tokens_history)

lemma JSON_stringify_not_empty: "JSON_stringify h \<noteq> []"
  by (simp add: JSON_stringify_def)

lemma load_persist: "load (persist h localStorage) = history_json h"
  by (simp add: load_def loadHistory_def persist_def JSON_stringify_not_empty
      JSON_parse_stringify)

section \<open>The refinement client\<close>

text \<open>
  C1. With an undefined or empty API key, \<open>refinePrompt\<close> throws the error that
  reports the missing key, whatever the prompt, goal and model, and makes no call to
  the remote service.
\<close>

theorem refinePrompt_missing_key:
  "refinePrompt generateContent rawPrompt g modelName None =
     (Inl (Error no_key_message), []) \<and>
   refinePrompt generateContent rawPrompt g modelName (Some []) =
     (Inl (Error no_key_message), [])"
  by (simp add: refinePrompt_def falsy_def)

text \<open>
  C9. With a non-empty API key, \<open>refinePrompt\<close> makes exactly one remote call; its
  request carries the given model, the raw prompt as contents, the system instruction
  of the goal, temperature 0.7 and topP 0.95.
\<close>

theorem refinePrompt_single_request:
  assumes "key \<noteq> []"
  shows "snd (refinePrompt generateContent rawPrompt g (Some m) (Some key)) =
    [(key, \<lparr>model = m, contents = rawPrompt,
             config = \<lparr>systemInstruction = getSystemInstruction g,
                       temperature = 7 / 10, topP = 95 / 100\<rparr>\<rparr>)]"
  using assms
  by (simp add: refinePrompt_def falsy_def generation_request_def Let_def
      split: outcome.splits)

theorem refinePrompt_single_request_witness:
  "js ''k'' \<noteq> [] \<and>
   snd (refinePrompt (\<lambda>k r. Resolved (Response None)) (js ''hi'') CONCISE
         (Some (js ''gemini-3-pro-preview'')) (Some (js ''k''))) =
    [(js ''k'', \<lparr>model = js ''gemini-3-pro-preview'', contents = js ''hi'',
             config = \<lparr>systemInstruction = getSystemInstruction CONCISE,
                       temperature = 7 / 10, topP = 95 / 100\<rparr>\<rparr>)]"
proof -
  have k: "js ''k'' \<noteq> []" by (simp add: js_def)
  show ?thesis using k refinePrompt_single_request [OF k] by simp
qed

text \<open>
  Against C3 as stated: a rejection with \<open>undefined\<close> carries no message, and
  \<open>refinePrompt\<close> does not throw the error with the generic text: reading
  \<open>error.message\<close> in the catch block raises a TypeError, and that is what it throws.
  So it does for a rejection whose message is a number, where the call of \<open>includes\<close>
  raises the TypeError.
\<close>

theorem refinePrompt_undefined_rejection_counterexample:
  "fst (refinePrompt
         (\<lambda>k r. Rejected (NullOrUndefined
            (js ''Cannot read properties of undefined (reading 'message')'')))
         (js ''hi'') GENERAL None (Some (js ''k''))) =
     Inl (TypeError (js ''Cannot read properties of undefined (reading 'message')'')) \<and>
   fst (refinePrompt
         (\<lambda>k r. Rejected (NullOrUndefined
            (js ''Cannot read properties of undefined (reading 'message')'')))
         (js ''hi'') GENERAL None (Some (js ''k''))) \<noteq> Inl (Error generic_message) \<and>
   fst (refinePrompt
         (\<lambda>k r. Rejected (Thrown (NoIncludes
            (js ''error.message?.includes is not a function''))))
         (js ''hi'') GENERAL None (Some (js ''k''))) =
     Inl (TypeError (js ''error.message?.includes is not a function''))"
  by (simp add: refinePrompt_def falsy_def js_def)

text \<open>
  C3, amended. When the remote call rejects with a value other than \<open>null\<close> and
  \<open>undefined\<close> whose message is a string or is undefined, \<open>refinePrompt\<close> throws an
  error chosen by that message: the fixed text about a model or API key mismatch when
  the message includes "Requested entity was not found"; otherwise the message itself,
  or the generic text when the message is undefined or empty.
\<close>

theorem refinePrompt_classifies_failure:
  assumes "key \<noteq> []"
    and "generateContent key (generation_request rawPrompt g modelName) = Rejected (Thrown msg)"
    and "msg = NoMessage \<or> msg = Message m"
  shows "fst (refinePrompt generateContent rawPrompt g modelName (Some key)) =
     Inl (Error (if msg = NoMessage then generic_message
                 else if String_includes m not_found_needle then not_found_message
                 else if m = [] then generic_message
                 else m))"
  using assms
  by (auto simp add: refinePrompt_def falsy_def or_else_def Let_def)

theorem refinePrompt_classifies_failure_witness:
  "js ''k'' \<noteq> [] \<and>
   (\<lambda>k r. Rejected (Thrown (Message (js ''404 Requested entity was not found.''))))
      (js ''k'') (generation_request (js ''hi'') GENERAL None) =
     Rejected (Thrown (Message (js ''404 Requested entity was not found.''))) \<and>
   fst (refinePrompt
         (\<lambda>k r. Rejected (Thrown (Message (js ''404 Requested entity was not found.''))))
         (js ''hi'') GENERAL None (Some (js ''k''))) = Inl (Error not_found_message) \<and>
   fst (refinePrompt (\<lambda>k r. Rejected (Thrown (Message (js ''quota exceeded''))))
         (js ''hi'') GENERAL None (Some (js ''k''))) = Inl (Error (js ''quota exceeded'')) \<and>
   fst (refinePrompt (\<lambda>k r. Rejected (Thrown NoMessage))
         (js ''hi'') GENERAL None (Some (js ''k''))) = Inl (Error generic_message)"
proof -
  have k: "js ''k'' \<noteq> []" by (simp add: js_def)
  have r: "(\<lambda>k r. Rejected (Thrown (Message (js ''404 Requested entity was not found.''))))
      (js ''k'') (generation_request (js ''hi'') GENERAL None) =
     Rejected (Thrown (Message (js ''404 Requested entity was not found.'')))" by simp
  have r2: "(\<lambda>k r. Rejected (Thrown (Message (js ''quota exceeded''))))
      (js ''k'') (generation_request (js ''hi'') GENERAL None) =
     Rejected (Thrown (Message (js ''quota exceeded'')))" by simp
  have r3: "(\<lambda>k r. Rejected (Thrown NoMessage))
      (js ''k'') (generation_request (js ''hi'') GENERAL None) =
     Rejected (Thrown NoMessage)" by simp
  have inc: "String_includes (js ''404 Requested entity was not found.'') not_found_needle"
    by (simp add: js_def not_found_needle_def)
  have ninc: "\<not> String_includes (js ''quota exceeded'') not_found_needle"
    by (simp add: js_def not_found_needle_def)
  have ne: "js ''quota exceeded'' \<noteq> []" by (simp add: js_def)
  have a: "fst (refinePrompt
         (\<lambda>k r. Rejected (Thrown (Message (js ''404 Requested entity was not found.''))))
         (js ''hi'') GENERAL None (Some (js ''k''))) = Inl (Error not_found_message)"
    using refinePrompt_classifies_failure [OF k r, of "js ''404 Requested entity was not found.''"]
      inc by simp
  have b: "fst (refinePrompt (\<lambda>k r. Rejected (Thrown (Message (js ''quota exceeded''))))
         (js ''hi'') GENERAL None (Some (js ''k''))) = Inl (Error (js ''quota exceeded''))"
    using refinePrompt_classifies_failure [OF k r2, of "js ''quota exceeded''"] ninc ne by simp
  have c: "fst (refinePrompt (\<lambda>k r. Rejected (Thrown NoMessage))
         (js ''hi'') GENERAL None (Some (js ''k''))) = Inl (Error generic_message)"
    using refinePrompt_classifies_failure [OF k r3, of "[]"] by simp
  show ?thesis using k a b c by simp
qed

text \<open>
  C4. When the remote call resolves, \<open>refinePrompt\<close> returns the trimmed text of the
  response; when that text is undefined, empty or made of white space only, it returns
  "Failed to generate a refined prompt." and does not throw.
\<close>

theorem refinePrompt_success:
  assumes "key \<noteq> []"
    and "generateContent key (generation_request rawPrompt g modelName) = Resolved (Response txt)"
  shows "fst (refinePrompt generateContent rawPrompt g modelName (Some key)) =
     Inr (case txt of
            None \<Rightarrow> empty_result_text
          | Some t \<Rightarrow>
              if (\<forall>c \<in> set t. WhiteSpace c) then empty_result_text else String_trim t)"
  using assms
  by (simp add: refinePrompt_def falsy_def or_else_def Let_def String_trim_empty_iff
      split: option.splits)

theorem refinePrompt_success_witness:
  "js ''k'' \<noteq> [] \<and>
   (\<lambda>k r. Resolved (Response (Some (js '' \<newline>''))))
      (js ''k'') (generation_request (js ''hi'') GENERAL None) =
     Resolved (Response (Some (js '' \<newline>''))) \<and>
   list_all WhiteSpace (js '' \<newline>'') \<and>
   fst (refinePrompt (\<lambda>k r. Resolved (Response (Some (js '' \<newline>''))))
         (js ''hi'') GENERAL None (Some (js ''k''))) = Inr empty_result_text"
proof -
  have k: "js ''k'' \<noteq> []" by (simp add: js_def)
  have r: "(\<lambda>k r. Resolved (Response (Some (js '' \<newline>''))))
      (js ''k'') (generation_request (js ''hi'') GENERAL None) =
     Resolved (Response (Some (js '' \<newline>'')))" by simp
  have ws: "\<forall>c \<in> set (js '' \<newline>''). WhiteSpace c"
    by (simp add: js_def WhiteSpace_def)
  show ?thesis
    using k ws refinePrompt_success [OF k r] by (simp add: list_all_iff)
qed

section \<open>The history and the handler\<close>


text \<open>
  C10. When the input is empty or made of white space only, \<open>handleRefine\<close> returns at
  once: no remote call is made and the whole state, the history, the refined output,
  the loading flag and the error among it, is as before.
\<close>

theorem handleRefine_blank_input:
  assumes "\<forall>c \<in> set (input s). WhiteSpace c"
  shows "handleRefine generateContent now1 now2 s = (s, [])"
  using assms by (simp add: handleRefine_def String_trim_empty_iff)

theorem handleRefine_blank_input_witness:
  "list_all WhiteSpace (input (example_state\<lparr>input := js ''  \<newline>''\<rparr>)) \<and>
   handleRefine (\<lambda>k r. Resolved (Response (Some (js ''ok'')))) 1000 1001
     (example_state\<lparr>input := js ''  \<newline>''\<rparr>) =
     (example_state\<lparr>input := js ''  \<newline>''\<rparr>, [])"
proof -
  have ws: "\<forall>c \<in> set (input (example_state\<lparr>input := js ''  \<newline>''\<rparr>)). WhiteSpace c"
    by (simp add: js_def WhiteSpace_def)
  show ?thesis using ws handleRefine_blank_input [OF ws] by (simp add: list_all_iff)
qed

text \<open>
  C7. Saving a history of at most ten valid entries and loading it again gives the
  run-time value of that very list, whatever the storage held before.
\<close>

theorem persist_load_roundtrip:
  assumes "length h \<le> 10" and "list_all valid_entry h"
  shows "load (persist h localStorage) = history_json h"
  by (rule load_persist)

theorem persist_load_roundtrip_witness:
  "length [example_entry, example_entry\<lparr>refined := []\<rparr>] \<le> 10 \<and>
   list_all valid_entry [example_entry, example_entry\<lparr>refined := []\<rparr>] \<and>
   load (persist [example_entry, example_entry\<lparr>refined := []\<rparr>] Map.empty) =
     history_json [example_entry, example_entry\<lparr>refined := []\<rparr>]"
proof -
  have l: "length [example_entry, example_entry\<lparr>refined := []\<rparr>] \<le> 10" by simp
  have v: "list_all valid_entry [example_entry, example_entry\<lparr>refined := []\<rparr>]"
    by (simp add: valid_entry_def example_entry_def)
  show ?thesis using l v persist_load_roundtrip [OF l v] by simp
qed

text \<open>
  Against C5 as stated: the storage may hold a well-formed history of eleven entries,
  and the load effect makes all eleven the state.
\<close>

theorem load_eleven_counterexample:
  "list_all valid_entry (replicate 11 example_entry) \<and>
   load (persist (replicate 11 example_entry) Map.empty) =
     JArray (replicate 11 (entry_json example_entry)) \<and>
   \<not> length (replicate 11 (entry_json example_entry)) \<le> 10"
  by (simp add: load_persist history_json_def list_all_iff valid_entry_def example_entry_def)

text \<open>
  C5, amended. Every list the updater of \<open>handleRefine\<close> produces has length at most
  10. The load effect does not truncate: when the stored text parses to an array, the
  state becomes that array, whole.
\<close>

theorem history_length:
  assumes "localStorage history_key = Some t" and "JSON_parse t = Some (JArray xs)"
  shows "length (record_entry e prev) \<le> 10 \<and> load localStorage = JArray xs"
  using assms
  by (auto simp add: record_entry_def load_def loadHistory_def JSON_parse_def
      parse_tokens_def)

theorem history_length_witness:
  "(persist [example_entry] Map.empty) history_key = Some (JSON_stringify [example_entry]) \<and>
   JSON_parse (JSON_stringify [example_entry]) = Some (JArray [entry_json example_entry]) \<and>
   length (record_entry (1::nat) [2, 3]) \<le> 10 \<and>
   load (persist [example_entry] Map.empty) = JArray [entry_json example_entry]"
proof -
  have k: "(persist [example_entry] Map.empty) history_key = Some (JSON_stringify [example_entry])"
    by (simp add: persist_def)
  have p: "JSON_parse (JSON_stringify [example_entry]) = Some (JArray [entry_json example_entry])"
    by (simp add: JSON_parse_stringify history_json_def)
  show ?thesis
    using k p
      history_length [of "persist [example_entry] Map.empty" "JSON_stringify [example_entry]"
        "[entry_json example_entry]" "1::nat" "[2, 3]", OF k p]
    by simp
qed

text \<open>
  Against C6 as stated: the text \<open>{}\<close> is valid JSON and not a list of history
  entries; the load effect makes the parsed object the state, not the empty list.
\<close>

theorem load_unvalidated_counterexample:
  "JSON_parse (js ''{}'') = Some (JObject []) \<and>
   \<not> is_history_list (JObject []) \<and>
   load [history_key \<mapsto> js ''{}''] = JObject [] \<and>
   load [history_key \<mapsto> js ''{}''] \<noteq> JArray []"
  by (simp add: load_def loadHistory_def JSON_parse_def parse_tokens_def js_def start_step_def)

text \<open>
  C6, amended. The load effect yields the empty list when the key is absent and when
  \<open>JSON.parse\<close> rejects the stored text, as it does the text \<open>{not json\<close>, and never
  throws; when the stored text is valid JSON it yields the parsed value as it is,
  whatever its shape.
\<close>

theorem load_characterisation:
  "load localStorage =
     (case localStorage history_key of
        None \<Rightarrow> JArray []
      | Some t \<Rightarrow> (case JSON_parse t of None \<Rightarrow> JArray [] | Some v \<Rightarrow> v)) \<and>
   JSON_parse (js ''{not json'') = None \<and>
   load [history_key \<mapsto> js ''{not json''] = JArray []"
proof -
  have empty: "JSON_parse [] = None"
    by (simp add: JSON_parse_def parse_tokens_def)
  have bad: "JSON_parse (js ''{not json'') = None"
    by (simp add: JSON_parse_def js_def start_step_def)
  show ?thesis
    by (simp add: bad load_def loadHistory_def empty split: option.splits)
qed

text \<open>
  Against C8 as stated: the clock is read twice, and when it moves from 1000 to 1001
  between the two reads the new entry has the id \<open>1000\<close> and the timestamp 1001.
\<close>

theorem handleRefine_id_counterexample:
  "history (fst (handleRefine (\<lambda>k r. Resolved (Response (Some (js ''ok'')))) 1000 1001
      example_state)) =
     [\<lparr>entry_id = js ''1000'', original = js ''hi'', refined = js ''ok'', goal = GENERAL,
       timestamp = 1001\<rparr>] \<and>
   Number_toString 1001 = js ''1001'' \<and>
   js ''1000'' \<noteq> js ''1001''"
proof -
  have t: "String_trim (js ''hi'') = js ''hi''"
    by (simp add: String_trim_def js_def WhiteSpace_def)
  have r: "refinePrompt (\<lambda>k r. Resolved (Response (Some (js ''ok'')))) (js ''hi'') GENERAL
      (Some (js ''gemini-3-flash-preview'')) (Some (js ''k'')) =
    (Inr (js ''ok''),
     [(js ''k'', generation_request (js ''hi'') GENERAL (Some (js ''gemini-3-flash-preview'')))])"
    by (simp add: refinePrompt_def falsy_def or_else_def String_trim_def js_def WhiteSpace_def)
  have n0: "Number_toString 1000 = js ''1000''"
    by (simp add: Number_toString_def digit_unit_def js_def)
  have n1: "Number_toString 1001 = js ''1001''"
    by (simp add: Number_toString_def digit_unit_def js_def)
  show ?thesis
    by (simp add: handleRefine_def example_state_def t r n0 n1 record_entry_def)
      (simp add: js_def)
qed

text \<open>
  C8, amended. The entry created on a successful refinement is the head of the new
  history; its id is the decimal text of the first reading of the clock and its
  timestamp is the second reading, so the id is the decimal text of the timestamp
  whenever the two readings are the same millisecond.
\<close>

theorem handleRefine_new_entry:
  assumes "String_trim (input s) \<noteq> []"
    and "fst (refinePrompt generateContent (input s) (goal_st s)
           (Some (if hasCustomKey s then selectedModel s else js ''gemini-2.5-flash''))
           (Some (customApiKey s))) = Inr result"
  shows "\<exists>e rest. history (fst (handleRefine generateContent now1 now2 s)) = e # rest \<and>
           entry_id e = Number_toString now1 \<and> timestamp e = now2 \<and>
           (now1 = now2 \<longrightarrow> entry_id e = Number_toString (timestamp e))"
proof -
  obtain calls where rp: "refinePrompt generateContent (input s) (goal_st s)
           (Some (if hasCustomKey s then selectedModel s else js ''gemini-2.5-flash''))
           (Some (customApiKey s)) = (Inr result, calls)"
    using assms(2) by (metis prod.collapse)
  have "history (fst (handleRefine generateContent now1 now2 s)) =
      record_entry \<lparr>entry_id = Number_toString now1, original = input s, refined = result,
        goal = goal_st s, timestamp = now2\<rparr> (history s)"
    unfolding handleRefine_def Let_def using assms(1) by (simp only: rp) simp
  then show ?thesis by (simp add: record_entry_def)
qed

theorem handleRefine_new_entry_witness:
  "String_trim (input example_state) \<noteq> [] \<and>
   fst (refinePrompt (\<lambda>k r. Resolved (Response (Some (js ''ok'')))) (input example_state)
          (goal_st example_state)
          (Some (if hasCustomKey example_state then selectedModel example_state
                 else js ''gemini-2.5-flash''))
          (Some (customApiKey example_state))) = Inr (js ''ok'') \<and>
   (\<exists>e rest. history (fst (handleRefine (\<lambda>k r. Resolved (Response (Some (js ''ok''))))
                 1000 1000 example_state)) = e # rest \<and>
      entry_id e = Number_toString (timestamp e))"
proof -
  have t: "String_trim (input example_state) \<noteq> []"
    by (simp add: example_state_def String_trim_def js_def WhiteSpace_def)
  have r: "fst (refinePrompt (\<lambda>k r. Resolved (Response (Some (js ''ok'')))) (input example_state)
          (goal_st example_state)
          (Some (if hasCustomKey example_state then selectedModel example_state
                 else js ''gemini-2.5-flash''))
          (Some (customApiKey example_state))) = Inr (js ''ok'')"
    by (simp add: example_state_def refinePrompt_def falsy_def or_else_def String_trim_def
        js_def WhiteSpace_def)
  show ?thesis
    using t r handleRefine_new_entry [OF t r, of 1000 1000] by auto
qed

end
